theory Spec2Isabelle
  imports Complex_Main "HOL-Library.Sublist"
begin

section \<open>Outcomes of a call\<close>

text \<open>
  A Python call either returns a value, raises an exception, or never returns because
  the calling thread blocks on a lock. All three are values of the model.
\<close>

datatype py_error = FileNotFoundError | TypeError | AttributeError | ApiError | ZeroDivisionError

datatype 'a outcome = Returns 'a | Raises py_error | Blocks

section \<open>The world outside the program\<close>

text \<open>
  What the code reads from outside itself, fixed for the duration of one call:
  \<^item> \<open>md5_hexdigest\<close>: \<open>hashlib.md5(bytes).hexdigest()\<close>;
  \<^item> \<open>file_bytes\<close>: the file system, a path to the bytes of the file there;
  \<^item> \<open>files_extract\<close>: \<open>client.files.create\<close> followed by \<open>client.files.content(...).text\<close>,
    \<open>None\<close> when the client raises;
  \<^item> \<open>caching_status\<close>: the status code of the POST to the \<open>caching\<close> endpoint;
  \<^item> \<open>time_now\<close>: \<open>time.time()\<close>, a float in the source and a real number here;
  \<^item> \<open>character_desc\<close>: \<open>conf().get("character_desc")\<close>.
\<close>

record env =
  md5_hexdigest :: "string \<Rightarrow> string"
  file_bytes :: "string \<rightharpoonup> string"
  files_extract :: "string \<Rightarrow> string option"
  caching_status :: "string \<Rightarrow> nat"
  time_now :: real
  character_desc :: string

text \<open>\<open>int(time.time())\<close>; timestamps are positive, where truncation is the floor.\<close>

definition int_time :: "env \<Rightarrow> int" where
  "int_time e = \<lfloor>time_now e\<rfloor>"

section \<open>kimi\_cache\_man.py\<close>

record CacheMessage =
  role :: string
  content :: string
  expired_time :: "int option"

text \<open>\<open>CacheMessage.is_expired\<close>, at the integer time \<open>now\<close>.\<close>

definition is_expired :: "int \<Rightarrow> CacheMessage \<Rightarrow> bool" where
  "is_expired now msg =
     (case expired_time msg of None \<Rightarrow> False | Some t \<Rightarrow> now > t)"

text \<open>
  A row of the table \<open>file_cache\<close>. The column \<open>messages\<close> holds the JSON text of the
  message array; the model keeps the array itself, so \<open>json.dumps\<close> and \<open>json.loads\<close>
  are the identity and only the filter of \<open>_deserialize_messages\<close> remains.
\<close>

record cache_row =
  file_hash :: string
  file_path :: string
  messages :: "CacheMessage list"
  cache_tag :: "string option"
  cache_expired_time :: "int option"
  cache_message :: "string option"
  create_time :: int
  update_time :: int

text \<open>
  The cache manager: its \<open>threading.Lock\<close> (held or free) and the SQLite table, the rows
  in rowid order with \<open>file_hash\<close> the primary key.
\<close>

record KimiCacheMan =
  lock_held :: bool
  file_cache :: "cache_row list"

text \<open>
  \<open>with self.lock:\<close> on a \<open>threading.Lock\<close>, which is not re-entrant: when the lock is
  already held the thread blocks and the call never returns. The lock is released when
  the body returns or raises; a body that blocks keeps it.
\<close>

definition with_lock ::
  "(KimiCacheMan \<Rightarrow> 'a outcome \<times> KimiCacheMan) \<Rightarrow> KimiCacheMan \<Rightarrow> 'a outcome \<times> KimiCacheMan" where
  "with_lock body s =
     (if lock_held s then (Blocks, s)
      else (case body (s\<lparr>lock_held := True\<rparr>) of
              (Blocks, s') \<Rightarrow> (Blocks, s')
            | (r, s') \<Rightarrow> (r, s'\<lparr>lock_held := False\<rparr>)))"

definition calculate_file_hash :: "env \<Rightarrow> string \<Rightarrow> string outcome" where
  "calculate_file_hash e path =
     (case file_bytes e path of
        None \<Rightarrow> Raises FileNotFoundError
      | Some bytes \<Rightarrow> Returns (md5_hexdigest e bytes))"

definition serialize_messages :: "CacheMessage list \<Rightarrow> CacheMessage list" where
  "serialize_messages msgs =
     map (\<lambda>msg. \<lparr>role = role msg, content = content msg, expired_time = expired_time msg\<rparr>) msgs"

definition deserialize_messages :: "int \<Rightarrow> CacheMessage list \<Rightarrow> CacheMessage list" where
  "deserialize_messages now messages_json = filter (\<lambda>msg. \<not> is_expired now msg) messages_json"

text \<open>\<open>SELECT ... WHERE file_hash = ?\<close> followed by \<open>fetchone()\<close>.\<close>

definition select_row :: "cache_row list \<Rightarrow> string \<Rightarrow> cache_row option" where
  "select_row tbl h = find (\<lambda>r. file_hash r = h) tbl"

text \<open>\<open>row[k] and current_time > row[k]\<close>: \<open>NULL\<close> and \<open>0\<close> are both falsy.\<close>

definition past_expiry :: "int \<Rightarrow> int option \<Rightarrow> bool" where
  "past_expiry current_time expiry =
     (case expiry of None \<Rightarrow> False | Some t \<Rightarrow> t \<noteq> 0 \<and> current_time > t)"

text \<open>\<open>INSERT OR REPLACE\<close>: a row with the same key is deleted, the new row is appended.\<close>

definition insert_cache ::
  "env \<Rightarrow> string \<Rightarrow> string \<Rightarrow> CacheMessage list \<Rightarrow> string option \<Rightarrow> int option \<Rightarrow>
   string option \<Rightarrow> KimiCacheMan \<Rightarrow> KimiCacheMan" where
  "insert_cache e fhash fpath messages_json tag expired cmessage s =
     (let current_time = int_time e in
      s\<lparr>file_cache :=
          filter (\<lambda>r. file_hash r \<noteq> fhash) (file_cache s) @
          [\<lparr>file_hash = fhash, file_path = fpath, messages = messages_json, cache_tag = tag,
            cache_expired_time = expired, cache_message = cmessage,
            create_time = current_time, update_time = current_time\<rparr>]\<rparr>)"

subsection \<open>kimi\_upload\_file.py\<close>

fun upload_loop :: "env \<Rightarrow> string list \<Rightarrow> CacheMessage list \<Rightarrow> CacheMessage list outcome" where
  "upload_loop e [] msgs = Returns msgs"
| "upload_loop e (file # rest) msgs =
     (case files_extract e file of
        None \<Rightarrow> Raises ApiError
      | Some file_content \<Rightarrow>
          upload_loop e rest
            (msgs @ [\<lparr>role = ''system'', content = file_content, expired_time = None\<rparr>]))"

text \<open>\<open>if cache_tag:\<close> is false for \<open>None\<close> and for the empty string.\<close>

definition upload_files :: "env \<Rightarrow> string list \<Rightarrow> string option \<Rightarrow> CacheMessage list outcome" where
  "upload_files e paths tag =
     (case upload_loop e paths [] of
        Returns msgs \<Rightarrow>
          (case tag of
             None \<Rightarrow> Returns msgs
           | Some t \<Rightarrow>
               if t = [] then Returns msgs
               else if caching_status e t \<noteq> 200 then Raises ApiError
               else Returns [\<lparr>role = ''cache'', content = ''tag='' @ t @ '';reset_ttl=300'',
                              expired_time = Some (int_time e + 300)\<rparr>])
      | Raises err \<Rightarrow> Raises err
      | Blocks \<Rightarrow> Blocks)"

subsection \<open>Reads\<close>

text \<open>
  What \<open>get_cache\<close> returns: \<open>None\<close>, a message list, or the text that reports a failed
  upload.
\<close>

datatype cache_result = NoResult | Messages "CacheMessage list" | UploadFailedText

definition get_cache :: "env \<Rightarrow> string \<Rightarrow> KimiCacheMan \<Rightarrow> cache_result outcome \<times> KimiCacheMan" where
  "get_cache e path s =
     (case file_bytes e path of
        None \<Rightarrow> (Returns NoResult, s)
      | Some bytes \<Rightarrow>
          with_lock (\<lambda>s1.
            case select_row (file_cache s1) (md5_hexdigest e bytes) of
              Some row \<Rightarrow>
                \<comment> \<open>a row past its expiry is only logged\<close>
                (Returns (Messages (deserialize_messages (int_time e) (messages row))), s1)
            | None \<Rightarrow>
                (case upload_files e [path] None of
                   Raises err \<Rightarrow> (Raises err, s1)
                 | Blocks \<Rightarrow> (Blocks, s1)
                 | Returns msgs \<Rightarrow>
                     if msgs = [] then (Returns UploadFailedText, s1)
                     else (Returns (Messages msgs),
                           insert_cache e (md5_hexdigest e bytes) path (serialize_messages msgs)
                             None None None s1))) s)"

definition remove_cache :: "string \<Rightarrow> KimiCacheMan \<Rightarrow> unit outcome \<times> KimiCacheMan" where
  "remove_cache fhash s =
     with_lock (\<lambda>s1.
       (Returns (), s1\<lparr>file_cache := filter (\<lambda>r. file_hash r \<noteq> fhash) (file_cache s1)\<rparr>)) s"

text \<open>
  The dictionary \<open>get_cache_info\<close> and \<open>get_cache_by_tag\<close> build from a row is the row with
  its messages deserialized.
\<close>

definition row_info :: "int \<Rightarrow> cache_row \<Rightarrow> cache_row" where
  "row_info now row = row\<lparr>messages := deserialize_messages now (messages row)\<rparr>"

definition get_cache_info ::
  "env \<Rightarrow> string \<Rightarrow> KimiCacheMan \<Rightarrow> cache_row option outcome \<times> KimiCacheMan" where
  "get_cache_info e path s =
     (case file_bytes e path of
        None \<Rightarrow> (Returns None, s)
      | Some bytes \<Rightarrow>
          with_lock (\<lambda>s1.
            case select_row (file_cache s1) (md5_hexdigest e bytes) of
              None \<Rightarrow> (Returns None, s1)
            | Some row \<Rightarrow>
                if past_expiry (int_time e) (cache_expired_time row) then
                  (case remove_cache (md5_hexdigest e bytes) s1 of
                     (Returns u, s2) \<Rightarrow> (Returns None, s2)
                   | (Raises err, s2) \<Rightarrow> (Raises err, s2)
                   | (Blocks, s2) \<Rightarrow> (Blocks, s2))
                else (Returns (Some (row_info (int_time e) row)), s1)) s)"

definition get_cache_by_tag ::
  "env \<Rightarrow> string \<Rightarrow> KimiCacheMan \<Rightarrow> cache_row list outcome \<times> KimiCacheMan" where
  "get_cache_by_tag e tag s =
     with_lock (\<lambda>s1.
       (Returns (map (row_info (int_time e))
                   (filter (\<lambda>r. cache_tag r = Some tag) (file_cache s1))), s1)) s"

subsection \<open>Writes\<close>

definition set_cache ::
  "env \<Rightarrow> string \<Rightarrow> CacheMessage list \<Rightarrow> string option \<Rightarrow> int option \<Rightarrow> string option \<Rightarrow>
   KimiCacheMan \<Rightarrow> unit outcome \<times> KimiCacheMan" where
  "set_cache e path msgs tag expire_seconds cmessage s =
     (case calculate_file_hash e path of
        Raises err \<Rightarrow> (Raises err, s)
      | Blocks \<Rightarrow> (Blocks, s)
      | Returns fhash \<Rightarrow>
          (let current_time = int_time e;
               expired = (case expire_seconds of
                            None \<Rightarrow> None
                          | Some d \<Rightarrow> if d \<noteq> 0 then Some (current_time + d) else None);
               messages_json = serialize_messages msgs
           in with_lock (\<lambda>s1.
                (Returns (), insert_cache e fhash path messages_json tag expired cmessage s1)) s))"

definition refresh_cache :: "env \<Rightarrow> string \<Rightarrow> int \<Rightarrow> KimiCacheMan \<Rightarrow> bool outcome \<times> KimiCacheMan" where
  "refresh_cache e path extend_seconds s =
     (case calculate_file_hash e path of
        Raises err \<Rightarrow> (Raises err, s)
      | Blocks \<Rightarrow> (Blocks, s)
      | Returns fhash \<Rightarrow>
          (let current_time = int_time e
           in with_lock (\<lambda>s1.
                case select_row (file_cache s1) fhash of
                  None \<Rightarrow> (Returns False, s1)
                | Some row \<Rightarrow>
                    (let new_expired_time = current_time + extend_seconds
                     in (Returns True,
                         s1\<lparr>file_cache :=
                              map (\<lambda>r. if file_hash r = fhash
                                        then r\<lparr>cache_expired_time := Some new_expired_time,
                                               update_time := current_time\<rparr>
                                        else r) (file_cache s1)\<rparr>))) s))"

section \<open>kimi\_session\_man.py\<close>

text \<open>
  A message of a session is a dictionary with the keys \<open>role\<close>, \<open>content\<close> and, when
  \<open>Session.add_message\<close> wrote it, \<open>timestamp\<close>.
\<close>

record Message =
  msg_role :: string
  msg_content :: string
  timestamp :: "real option"

record Session =
  user_id :: string
  session_messages :: "Message list"
  cache_hit_count :: int
  cache_miss_count :: int
  last_active_time :: real
  session_context :: "string \<rightharpoonup> string"

text \<open>Python's \<open>a / b\<close> on integers: true division, \<open>ZeroDivisionError\<close> when \<open>b = 0\<close>.\<close>

definition py_truediv :: "int \<Rightarrow> int \<Rightarrow> real outcome" where
  "py_truediv a b = (if b = 0 then Raises ZeroDivisionError else Returns (real_of_int a / real_of_int b))"

definition get_cache_hit_rate :: "Session \<Rightarrow> real outcome" where
  "get_cache_hit_rate session =
     (let total = cache_hit_count session + cache_miss_count session
      in if total > 0 then py_truediv (cache_hit_count session) total else Returns 0)"

text \<open>
  The session manager: the dictionary \<open>sessions\<close> in insertion order, the cache manager,
  the directory of snapshots (one file per user id) and the time of the last cleanup.
\<close>

record KimiSessionMan =
  knowledge_file :: string
  sessions :: "(string \<times> Session) list"
  cache_man :: KimiCacheMan
  save_dir :: "string \<rightharpoonup> Session"
  last_cleanup :: real

subsection \<open>Deduplication\<close>

text \<open>
  The loop of \<open>_deduplicate_messages\<close> over \<open>reversed(other_messages)\<close>, with the
  dictionary \<open>seen_contents\<close> and the list \<open>unique_messages\<close> it appends to.
\<close>

fun dedup_scan :: "Message list \<Rightarrow> (string \<rightharpoonup> bool) \<Rightarrow> Message list \<Rightarrow> Message list" where
  "dedup_scan [] seen_contents unique_messages = unique_messages"
| "dedup_scan (msg # rest) seen_contents unique_messages =
     (if seen_contents (msg_content msg) = None
      then dedup_scan rest (seen_contents(msg_content msg \<mapsto> True)) (unique_messages @ [msg])
      else dedup_scan rest seen_contents unique_messages)"

definition is_system :: "Message \<Rightarrow> bool" where
  "is_system msg = (msg_role msg = ''system'')"

definition deduplicate_messages :: "Message list \<Rightarrow> Message list \<times> int" where
  "deduplicate_messages msgs =
     (let system_messages = filter is_system msgs;
          other_messages = filter (\<lambda>msg. \<not> is_system msg) msgs;
          unique_messages = rev (dedup_scan (rev other_messages) Map.empty []);
          duplicates_removed = int (length other_messages) - int (length unique_messages)
      in (system_messages @ unique_messages, duplicates_removed))"

text \<open>
  Deduplication in the words of the specification: a non-system message is discarded
  when a later message has the same content.
\<close>

fun keep_last_occurrences :: "Message list \<Rightarrow> Message list" where
  "keep_last_occurrences [] = []"
| "keep_last_occurrences (msg # later) =
     (if msg_content msg \<in> set (map msg_content later)
      then keep_last_occurrences later
      else msg # keep_last_occurrences later)"

subsection \<open>Cleanup\<close>

text \<open>
  The body of the loop of \<open>clear_expired_sessions\<close> for a session that is not idle:
  the new message list and the number of messages removed from it.
  \<open>other_messages[-keep_count:]\<close> with \<open>keep_count > 0\<close> is the last \<open>keep_count\<close> elements,
  or the whole list when it is shorter.
\<close>

definition clean_messages :: "int \<Rightarrow> Message list \<Rightarrow> Message list \<times> int" where
  "clean_messages max_messages msgs =
     (case deduplicate_messages msgs of
        (deduped_messages, duplicates_removed) \<Rightarrow>
          if int (length deduped_messages) > max_messages then
            (let system_messages = filter is_system deduped_messages;
                 other_messages = filter (\<lambda>msg. \<not> is_system msg) deduped_messages;
                 keep_count = max_messages - int (length system_messages);
                 kept_messages =
                   (if keep_count > 0
                    then drop (length other_messages - nat keep_count) other_messages
                    else []);
                 truncated_count =
                   int (length deduped_messages)
                   - (int (length system_messages) + int (length kept_messages))
             in (system_messages @ kept_messages, duplicates_removed + truncated_count))
          else (deduped_messages, duplicates_removed))"

text \<open>
  The loop over \<open>self.sessions.items()\<close>. The accumulator holds the sessions processed so
  far, \<open>expired_users\<close>, \<open>total_cleaned_messages\<close> and the snapshot directory.
\<close>

fun cleanup_loop ::
  "real \<Rightarrow> int \<Rightarrow> int \<Rightarrow> (string \<times> Session) list \<Rightarrow>
   (string \<times> Session) list \<times> string list \<times> int \<times> (string \<rightharpoonup> Session) \<Rightarrow>
   (string \<times> Session) list \<times> string list \<times> int \<times> (string \<rightharpoonup> Session)" where
  "cleanup_loop current_time expire_seconds max_messages [] acc = acc"
| "cleanup_loop current_time expire_seconds max_messages ((uid, session) # rest)
     (processed, expired_users, total_cleaned_messages, saved) =
     (if current_time - last_active_time session > real_of_int expire_seconds
      then cleanup_loop current_time expire_seconds max_messages rest
             (processed @ [(uid, session)], expired_users @ [uid], total_cleaned_messages, saved)
      else
        (case clean_messages max_messages (session_messages session) of
           (new_messages, cleaned) \<Rightarrow>
             (let session' = session\<lparr>session_messages := new_messages\<rparr>;
                  saved' = (if length new_messages \<noteq> length (session_messages session)
                            then saved(user_id session' \<mapsto> session')
                            else saved)
              in cleanup_loop current_time expire_seconds max_messages rest
                   (processed @ [(uid, session')], expired_users,
                    total_cleaned_messages + cleaned, saved'))))"

text \<open>\<open>del self.sessions[user_id]\<close> and the removal of the snapshot file.\<close>

definition delete_session :: "string \<Rightarrow> KimiSessionMan \<Rightarrow> KimiSessionMan" where
  "delete_session uid st =
     st\<lparr>sessions := filter (\<lambda>entry. fst entry \<noteq> uid) (sessions st),
        save_dir := (save_dir st)(uid := None)\<rparr>"

definition clear_expired_sessions ::
  "env \<Rightarrow> int \<Rightarrow> int \<Rightarrow> KimiSessionMan \<Rightarrow> (nat \<times> int) \<times> KimiSessionMan" where
  "clear_expired_sessions e expire_seconds max_messages st =
     (case cleanup_loop (time_now e) expire_seconds max_messages (sessions st)
             ([], [], 0, save_dir st) of
        (processed, expired_users, total_cleaned_messages, saved) \<Rightarrow>
          ((length expired_users, total_cleaned_messages),
           fold delete_session expired_users (st\<lparr>sessions := processed, save_dir := saved\<rparr>)))"

subsection \<open>Sessions and temporary knowledge\<close>

text \<open>
  \<open>get_session\<close>. Iterating over \<open>cache_messages\<close> reads \<open>msg.role\<close>; on the text of a failed
  upload that is an \<open>AttributeError\<close>.
\<close>

definition get_session ::
  "env \<Rightarrow> string \<Rightarrow> KimiSessionMan \<Rightarrow> (Session \<times> bool) outcome \<times> KimiSessionMan" where
  "get_session e uid st =
     (let current_time = time_now e;
          st1 = (if current_time - last_cleanup st > 3600
                 then (snd (clear_expired_sessions e (3 * 24 * 3600) 300 st))
                        \<lparr>last_cleanup := current_time\<rparr>
                 else st)
      in case map_of (sessions st1) uid of
           Some session \<Rightarrow> (Returns (session, False), st1)
         | None \<Rightarrow>
             (case get_cache e (knowledge_file st1) (cache_man st1) of
                (Raises err, cm) \<Rightarrow> (Raises err, st1\<lparr>cache_man := cm\<rparr>)
              | (Blocks, cm) \<Rightarrow> (Blocks, st1\<lparr>cache_man := cm\<rparr>)
              | (Returns UploadFailedText, cm) \<Rightarrow> (Raises AttributeError, st1\<lparr>cache_man := cm\<rparr>)
              | (Returns cache_messages, cm) \<Rightarrow>
                  (let initial_messages =
                         \<lparr>msg_role = ''system'', msg_content = character_desc e, timestamp = None\<rparr> #
                         (case cache_messages of
                            Messages ms \<Rightarrow>
                              map (\<lambda>msg. \<lparr>msg_role = role msg, msg_content = content msg,
                                           timestamp = None\<rparr>) ms
                          | _ \<Rightarrow> []);
                       session = \<lparr>user_id = uid, session_messages = initial_messages,
                                  cache_hit_count = 0, cache_miss_count = 0,
                                  last_active_time = time_now e, session_context = Map.empty\<rparr>
                   in (Returns (session, True),
                       st1\<lparr>cache_man := cm, sessions := sessions st1 @ [(uid, session)]\<rparr>))))"

text \<open>A session object is shared with the dictionary: a change of it is a change there.\<close>

definition store_session :: "string \<Rightarrow> Session \<Rightarrow> KimiSessionMan \<Rightarrow> KimiSessionMan" where
  "store_session uid session st =
     st\<lparr>sessions := map (\<lambda>entry. if fst entry = uid then (uid, session) else entry) (sessions st)\<rparr>"

text \<open>\<open>if cache:\<close> is false for \<open>None\<close> and for the empty list.\<close>

definition truthy :: "cache_result \<Rightarrow> bool" where
  "truthy r = (case r of NoResult \<Rightarrow> False | Messages ms \<Rightarrow> ms \<noteq> [] | UploadFailedText \<Rightarrow> True)"

text \<open>
  \<open>add_temp_knowledge\<close>. On a hit, \<open>cache\<close> is a list (or the failure text), which has no
  method \<open>get\<close>: \<open>cache.get('file_id')\<close> raises \<open>AttributeError\<close>. On a miss, \<open>set_cache\<close>
  is called without its parameter \<open>messages\<close> and with the keywords \<open>file_id\<close> and
  \<open>message\<close> it does not have: the call raises \<open>TypeError\<close> before \<open>set_cache\<close> runs.
  \<open>expire_seconds * 2\<close> raises \<open>TypeError\<close> when \<open>expire_seconds\<close> is \<open>None\<close>. The float
  comparison \<open>hit_rate > 0.8\<close> is the comparison of the exact quotient with \<open>4/5\<close>.
\<close>

definition add_temp_knowledge ::
  "env \<Rightarrow> string \<Rightarrow> string \<Rightarrow> int option \<Rightarrow> KimiSessionMan \<Rightarrow>
   string option outcome \<times> KimiSessionMan" where
  "add_temp_knowledge e uid path expire_seconds st =
     (case get_session e uid st of
        (Raises err, st1) \<Rightarrow> (Raises err, st1)
      | (Blocks, st1) \<Rightarrow> (Blocks, st1)
      | (Returns (session, is_new), st1) \<Rightarrow>
          (case get_cache e path (cache_man st1) of
             (Raises err, cm) \<Rightarrow> (Raises err, st1\<lparr>cache_man := cm\<rparr>)
           | (Blocks, cm) \<Rightarrow> (Blocks, st1\<lparr>cache_man := cm\<rparr>)
           | (Returns cache, cm) \<Rightarrow>
               (let st2 = st1\<lparr>cache_man := cm\<rparr> in
                if truthy cache then
                  (let session' = session\<lparr>cache_hit_count := cache_hit_count session + 1\<rparr>;
                       st3 = store_session uid session' st2
                   in case get_cache_hit_rate session' of
                        Raises err \<Rightarrow> (Raises err, st3)
                      | Blocks \<Rightarrow> (Blocks, st3)
                      | Returns hit_rate \<Rightarrow>
                          if hit_rate > 4 / 5 then
                            (case expire_seconds of
                               None \<Rightarrow> (Raises TypeError, st3)
                             | Some secs \<Rightarrow>
                                 (case refresh_cache e path (secs * 2) (cache_man st3) of
                                    (Raises err, cm') \<Rightarrow> (Raises err, st3\<lparr>cache_man := cm'\<rparr>)
                                  | (Blocks, cm') \<Rightarrow> (Blocks, st3\<lparr>cache_man := cm'\<rparr>)
                                  | (Returns found, cm') \<Rightarrow>
                                      (Raises AttributeError, st3\<lparr>cache_man := cm'\<rparr>)))
                          else (Raises AttributeError, st3))
                else
                  (let session' = session\<lparr>cache_miss_count := cache_miss_count session + 1\<rparr>;
                       st3 = store_session uid session' st2
                   in (Raises TypeError, st3)))))"

text \<open>
  What the loop of \<open>clear_expired_sessions\<close> leaves in the dictionary for one entry.
\<close>

definition cleaned_entry :: "real \<Rightarrow> int \<Rightarrow> int \<Rightarrow> string \<times> Session \<Rightarrow> string \<times> Session" where
  "cleaned_entry current_time expire_seconds max_messages entry =
     (if current_time - last_active_time (snd entry) > real_of_int expire_seconds then entry
      else (fst entry,
            (snd entry)\<lparr>session_messages :=
               fst (clean_messages max_messages (session_messages (snd entry)))\<rparr>))"

section \<open>Concrete states\<close>

text \<open>
  A file system with three files, a client whose upload raises, and a clock. The digest
  is a stand-in that keeps distinct contents apart.
\<close>

definition demo_env :: "real \<Rightarrow> env" where
  "demo_env t =
     \<lparr>md5_hexdigest = (\<lambda>bytes. ''md5:'' @ bytes),
      file_bytes = [''/k/a.txt'' \<mapsto> ''alpha'', ''/k/b.txt'' \<mapsto> ''beta'', ''/k/c.txt'' \<mapsto> ''gamma''],
      files_extract = (\<lambda>p. None),
      caching_status = (\<lambda>tag. 200),
      time_now = t,
      character_desc = ''persona''\<rparr>"

definition alpha_text :: CacheMessage where
  "alpha_text = \<lparr>role = ''system'', content = ''alpha text'', expired_time = None\<rparr>"

definition old_marker :: CacheMessage where
  "old_marker = \<lparr>role = ''cache'', content = ''tag=u1;reset_ttl=300'', expired_time = Some 50\<rparr>"

text \<open>A record that expires at time 100, and one whose only message expired at time 50.\<close>

definition demo_row :: cache_row where
  "demo_row =
     \<lparr>file_hash = ''md5:alpha'', file_path = ''/k/a.txt'', messages = [alpha_text],
      cache_tag = Some ''u1'', cache_expired_time = Some 100, cache_message = None,
      create_time = 40, update_time = 40\<rparr>"

definition lapsed_row :: cache_row where
  "lapsed_row =
     \<lparr>file_hash = ''md5:beta'', file_path = ''/k/b.txt'', messages = [old_marker],
      cache_tag = None, cache_expired_time = None, cache_message = None,
      create_time = 40, update_time = 40\<rparr>"

definition demo_cache :: KimiCacheMan where
  "demo_cache = \<lparr>lock_held = False, file_cache = [demo_row, lapsed_row]\<rparr>"

text \<open>A record without expiry that holds an expired and a live message.\<close>

definition mixed_row :: cache_row where
  "mixed_row =
     \<lparr>file_hash = ''md5:alpha'', file_path = ''/k/a.txt'', messages = [old_marker, alpha_text],
      cache_tag = Some ''u1'', cache_expired_time = None, cache_message = None,
      create_time = 40, update_time = 40\<rparr>"

definition mixed_cache :: KimiCacheMan where
  "mixed_cache = \<lparr>lock_held = False, file_cache = [mixed_row]\<rparr>"

definition demo_session :: Session where
  "demo_session =
     \<lparr>user_id = ''u1'',
      session_messages = [\<lparr>msg_role = ''system'', msg_content = ''persona'', timestamp = None\<rparr>],
      cache_hit_count = 0, cache_miss_count = 0, last_active_time = 90,
      session_context = Map.empty\<rparr>"

definition demo_man :: KimiSessionMan where
  "demo_man =
     \<lparr>knowledge_file = ''/k/a.txt'', sessions = [(''u1'', demo_session)],
      cache_man = demo_cache, save_dir = Map.empty, last_cleanup = 90\<rparr>"

text \<open>A session with two system messages and ten non-system messages, all different.\<close>

definition sys_msg :: "string \<Rightarrow> Message" where
  "sys_msg c = \<lparr>msg_role = ''system'', msg_content = c, timestamp = None\<rparr>"

definition user_msg :: "string \<Rightarrow> Message" where
  "user_msg c = \<lparr>msg_role = ''user'', msg_content = c, timestamp = Some 90\<rparr>"

definition scenario_session :: Session where
  "scenario_session =
     \<lparr>user_id = ''u1'',
      session_messages =
        [sys_msg ''persona'', sys_msg ''knowledge'',
         user_msg ''q0'', user_msg ''q1'', user_msg ''q2'', user_msg ''q3'', user_msg ''q4'',
         user_msg ''q5'', user_msg ''q6'', user_msg ''q7'', user_msg ''q8'', user_msg ''q9''],
      cache_hit_count = 0, cache_miss_count = 0, last_active_time = 90,
      session_context = Map.empty\<rparr>"

definition scenario_man :: KimiSessionMan where
  "scenario_man =
     \<lparr>knowledge_file = ''/k/a.txt'', sessions = [(''u1'', scenario_session)],
      cache_man = demo_cache, save_dir = Map.empty, last_cleanup = 90\<rparr>"

section \<open>Lemmas about the table\<close>

lemma select_row_hash: "select_row tbl h = Some r \<Longrightarrow> file_hash r = h"
  by (auto simp: select_row_def find_Some_iff)

lemma select_row_mem: "select_row tbl h = Some r \<Longrightarrow> r \<in> set tbl"
  by (auto simp: select_row_def find_Some_iff)

lemma select_row_insert_same:
  "file_hash r = h \<Longrightarrow> select_row (filter (\<lambda>x. file_hash x \<noteq> h) tbl @ [r]) h = Some r"
  by (induction tbl) (auto simp: select_row_def)

lemma select_row_map_update:
  assumes "\<And>r. file_hash (f r) = file_hash r"
  shows "select_row (map f tbl) h = map_option f (select_row tbl h)"
  using assms by (induction tbl) (auto simp: select_row_def)

lemma int_time_demo: "int_time (demo_env (of_int n)) = n"
  by (simp add: int_time_def demo_env_def)

lemma demo_env_fields:
  "md5_hexdigest (demo_env t) bytes = ''md5:'' @ bytes"
  "file_bytes (demo_env t) ''/k/a.txt'' = Some ''alpha''"
  "file_bytes (demo_env t) ''/k/b.txt'' = Some ''beta''"
  "file_bytes (demo_env t) ''/k/c.txt'' = Some ''gamma''"
  "files_extract (demo_env t) p = None"
  "time_now (demo_env t) = t"
  by (simp_all add: demo_env_def)

lemma demo_cache_rows:
  "\<not> lock_held demo_cache"
  "select_row (file_cache demo_cache) ''md5:alpha'' = Some demo_row"
  "select_row (file_cache demo_cache) ''md5:beta'' = Some lapsed_row"
  "select_row (file_cache demo_cache) ''md5:gamma'' = None"
  by (simp_all add: demo_cache_def select_row_def demo_row_def lapsed_row_def)

lemma mixed_cache_rows:
  "\<not> lock_held mixed_cache"
  "select_row (file_cache mixed_cache) ''md5:alpha'' = Some mixed_row"
  by (simp_all add: mixed_cache_def select_row_def mixed_row_def)

text \<open>
  Past the expiry of the record, \<open>get_cache_info\<close> blocks on the lock it already holds.
\<close>

lemma get_cache_info_past_expiry_blocks:
  assumes "file_bytes e path = Some bytes"
    and "select_row (file_cache s) (md5_hexdigest e bytes) = Some row"
    and "past_expiry (int_time e) (cache_expired_time row)"
    and "\<not> lock_held s"
  shows "get_cache_info e path s = (Blocks, s\<lparr>lock_held := True\<rparr>)"
  using assms by (simp add: get_cache_info_def with_lock_def remove_cache_def)

section \<open>The content cache\<close>

text \<open>
  C1, as amended. A record whose \<open>cache_expired_time\<close> is \<open>t\<close> is live up to and including
  time \<open>t\<close>: \<open>get_cache_info\<close> returns the full record and \<open>get_cache\<close> its messages (each
  without the messages that expired on their own). Strictly after \<open>t\<close> (with \<open>t\<close> not the
  falsy value \<open>0\<close>) \<open>get_cache_info\<close> does not return the record.
\<close>

theorem record_live_until_expiry:
  assumes "file_bytes e path = Some bytes"
    and "select_row (file_cache s) (md5_hexdigest e bytes) = Some row"
    and "cache_expired_time row = Some t"
    and "\<not> lock_held s"
  shows "(int_time e \<le> t \<longrightarrow>
            get_cache_info e path s = (Returns (Some (row_info (int_time e) row)), s) \<and>
            get_cache e path s =
              (Returns (Messages (deserialize_messages (int_time e) (messages row))), s)) \<and>
         (t < int_time e \<and> t \<noteq> 0 \<longrightarrow>
            (\<forall>info. fst (get_cache_info e path s) \<noteq> Returns (Some info)))"
  using assms
  by (auto simp: get_cache_info_def get_cache_def with_lock_def past_expiry_def remove_cache_def)

theorem record_live_until_expiry_witness:
  "get_cache_info (demo_env 99) ''/k/a.txt'' demo_cache = (Returns (Some demo_row), demo_cache) \<and>
   get_cache (demo_env 99) ''/k/a.txt'' demo_cache = (Returns (Messages [alpha_text]), demo_cache) \<and>
   fst (get_cache_info (demo_env 101) ''/k/a.txt'' demo_cache) \<noteq> Returns (Some demo_row)"
proof -
  have t: "cache_expired_time demo_row = Some 100"
    by (simp add: demo_row_def)
  have live: "row_info 99 demo_row = demo_row" "deserialize_messages 99 (messages demo_row) = [alpha_text]"
    by (simp_all add: row_info_def deserialize_messages_def is_expired_def demo_row_def alpha_text_def)
  from record_live_until_expiry [of "demo_env 99" "''/k/a.txt''" "''alpha''" demo_cache demo_row 100]
       record_live_until_expiry [of "demo_env 101" "''/k/a.txt''" "''alpha''" demo_cache demo_row 100]
       int_time_demo [of 99] int_time_demo [of 101] t live
  show ?thesis
    by (simp add: demo_env_fields demo_cache_rows)
qed

text \<open>
  Against C1 as stated: a read at time \<open>100\<close> of a record that expires at \<open>100\<close> returns
  the record.
\<close>

theorem record_live_at_expiry_time:
  "cache_expired_time demo_row = Some 100 \<and> int_time (demo_env 100) = 100 \<and>
   get_cache_info (demo_env 100) ''/k/a.txt'' demo_cache = (Returns (Some demo_row), demo_cache)"
  using int_time_demo [of 100]
  by (simp add: get_cache_info_def demo_env_fields demo_cache_rows with_lock_def past_expiry_def
      row_info_def deserialize_messages_def is_expired_def demo_row_def alpha_text_def)

text \<open>
  C2, at a failing input. \<open>get_cache_info\<close> at time \<open>101\<close> on the record that expired at
  \<open>100\<close> holds the lock when it calls \<open>remove_cache\<close>, which takes the same lock: the call
  never returns, the lock stays held and the record stays in the table.
\<close>

theorem get_cache_info_expired_blocks:
  "get_cache_info (demo_env 101) ''/k/a.txt'' demo_cache = (Blocks, demo_cache\<lparr>lock_held := True\<rparr>) \<and>
   select_row (file_cache (snd (get_cache_info (demo_env 101) ''/k/a.txt'' demo_cache))) ''md5:alpha''
     = Some demo_row"
proof -
  have "get_cache_info (demo_env 101) ''/k/a.txt'' demo_cache = (Blocks, demo_cache\<lparr>lock_held := True\<rparr>)"
    using int_time_demo [of 101]
    by (simp add: get_cache_info_def demo_env_fields demo_cache_rows with_lock_def past_expiry_def
        remove_cache_def demo_row_def)
  then show ?thesis
    by (simp add: demo_cache_rows)
qed

text \<open>
  C6. A stored message whose \<open>expired_time\<close> is set and strictly in the past is absent from
  what \<open>get_cache\<close>, \<open>get_cache_info\<close> and \<open>get_cache_by_tag\<close> return, and none of the three
  reads changes the table.
\<close>

theorem expired_messages_filtered_on_read:
  assumes "file_bytes e path = Some bytes"
    and "select_row (file_cache s) (md5_hexdigest e bytes) = Some row"
    and "msg \<in> set (messages row)" and "expired_time msg = Some t" and "t < int_time e"
    and "\<not> lock_held s"
  shows "get_cache e path s =
           (Returns (Messages (filter (\<lambda>m. \<not> is_expired (int_time e) m) (messages row))), s) \<and>
         msg \<notin> set (filter (\<lambda>m. \<not> is_expired (int_time e) m) (messages row)) \<and>
         (\<not> past_expiry (int_time e) (cache_expired_time row) \<longrightarrow>
            get_cache_info e path s = (Returns (Some (row_info (int_time e) row)), s) \<and>
            msg \<notin> set (messages (row_info (int_time e) row))) \<and>
         file_cache (snd (get_cache_info e path s)) = file_cache s \<and>
         (\<forall>tag. get_cache_by_tag e tag s =
            (Returns (map (row_info (int_time e))
                        (filter (\<lambda>r. cache_tag r = Some tag) (file_cache s))), s) \<and>
            (\<forall>info \<in> set (map (row_info (int_time e))
                        (filter (\<lambda>r. cache_tag r = Some tag) (file_cache s))).
               \<forall>m \<in> set (messages info). \<not> is_expired (int_time e) m) \<and>
            (cache_tag row = Some tag \<longrightarrow>
               row_info (int_time e) row \<in> set (map (row_info (int_time e))
                        (filter (\<lambda>r. cache_tag r = Some tag) (file_cache s)))))"
proof -
  have exp: "is_expired (int_time e) msg"
    using assms by (simp add: is_expired_def)
  have a: "get_cache e path s =
           (Returns (Messages (filter (\<lambda>m. \<not> is_expired (int_time e) m) (messages row))), s)"
    using assms by (simp add: get_cache_def with_lock_def deserialize_messages_def)
  have b: "msg \<notin> set (filter (\<lambda>m. \<not> is_expired (int_time e) m) (messages row))"
    using exp by simp
  have c: "\<not> past_expiry (int_time e) (cache_expired_time row) \<longrightarrow>
            get_cache_info e path s = (Returns (Some (row_info (int_time e) row)), s) \<and>
            msg \<notin> set (messages (row_info (int_time e) row))"
    using assms exp
    by (simp add: get_cache_info_def with_lock_def row_info_def deserialize_messages_def)
  have d: "file_cache (snd (get_cache_info e path s)) = file_cache s"
    using assms by (simp add: get_cache_info_def with_lock_def remove_cache_def)
  have f: "get_cache_by_tag e tag s =
            (Returns (map (row_info (int_time e))
                        (filter (\<lambda>r. cache_tag r = Some tag) (file_cache s))), s)" for tag
    using assms by (simp add: get_cache_by_tag_def with_lock_def)
  have g: "\<forall>info \<in> set (map (row_info (int_time e))
                        (filter (\<lambda>r. cache_tag r = Some tag) (file_cache s))).
               \<forall>m \<in> set (messages info). \<not> is_expired (int_time e) m" for tag
    by (auto simp: row_info_def deserialize_messages_def)
  have h: "cache_tag row = Some tag \<longrightarrow>
               row_info (int_time e) row \<in> set (map (row_info (int_time e))
                        (filter (\<lambda>r. cache_tag r = Some tag) (file_cache s)))" for tag
    using select_row_mem [OF assms(2)] by auto
  from a b c d f g h show ?thesis by blast
qed

theorem expired_messages_filtered_on_read_witness:
  "get_cache (demo_env 100) ''/k/a.txt'' mixed_cache = (Returns (Messages [alpha_text]), mixed_cache) \<and>
   get_cache_info (demo_env 100) ''/k/a.txt'' mixed_cache =
     (Returns (Some (mixed_row\<lparr>messages := [alpha_text]\<rparr>)), mixed_cache) \<and>
   get_cache_by_tag (demo_env 100) ''u1'' mixed_cache =
     (Returns [mixed_row\<lparr>messages := [alpha_text]\<rparr>], mixed_cache)"
proof -
  have h1: "file_bytes (demo_env 100) ''/k/a.txt'' = Some ''alpha''"
    by (simp add: demo_env_fields)
  have h2: "select_row (file_cache mixed_cache) (md5_hexdigest (demo_env 100) ''alpha'') = Some mixed_row"
    by (simp add: demo_env_fields mixed_cache_rows)
  have h3: "old_marker \<in> set (messages mixed_row)"
    by (simp add: mixed_row_def)
  have h4: "expired_time old_marker = Some 50"
    by (simp add: old_marker_def)
  have h5: "50 < int_time (demo_env 100)"
    using int_time_demo [of 100] by simp
  have h6: "\<not> lock_held mixed_cache"
    by (simp add: mixed_cache_rows)
  have live: "filter (\<lambda>m. \<not> is_expired 100 m) (messages mixed_row) = [alpha_text]"
    by (simp add: mixed_row_def is_expired_def old_marker_def alpha_text_def)
  have tagged: "filter (\<lambda>r. cache_tag r = Some ''u1'') (file_cache mixed_cache) = [mixed_row]"
    by (simp add: mixed_cache_def mixed_row_def)
  have info: "row_info 100 mixed_row = mixed_row\<lparr>messages := [alpha_text]\<rparr>"
    using live by (simp add: row_info_def deserialize_messages_def)
  have fresh: "\<not> past_expiry 100 (cache_expired_time mixed_row)"
    by (simp add: past_expiry_def mixed_row_def)
  from expired_messages_filtered_on_read [OF h1 h2 h3 h4 h5 h6] int_time_demo [of 100]
       live tagged info fresh
  show ?thesis by simp
qed

text \<open>
  C7. On a file whose hash has a record, \<open>refresh_cache\<close> returns \<open>True\<close> and leaves that
  record with \<open>cache_expired_time = now + extend_seconds\<close> and \<open>update_time = now\<close>, whatever
  the expiry was before; its messages and every other record are as before. On a file
  whose hash has no record it returns \<open>False\<close> and changes nothing.
\<close>

theorem refresh_cache_sets_expiry:
  assumes "file_bytes e path = Some bytes" and "\<not> lock_held s"
  shows "(select_row (file_cache s) (md5_hexdigest e bytes) = None \<longrightarrow>
            refresh_cache e path delta s = (Returns False, s)) \<and>
         (\<forall>row. select_row (file_cache s) (md5_hexdigest e bytes) = Some row \<longrightarrow>
            fst (refresh_cache e path delta s) = Returns True \<and>
            select_row (file_cache (snd (refresh_cache e path delta s))) (md5_hexdigest e bytes) =
              Some (row\<lparr>cache_expired_time := Some (int_time e + delta), update_time := int_time e\<rparr>) \<and>
            (\<forall>h. h \<noteq> md5_hexdigest e bytes \<longrightarrow>
               select_row (file_cache (snd (refresh_cache e path delta s))) h =
               select_row (file_cache s) h))"
proof (intro conjI allI impI)
  assume "select_row (file_cache s) (md5_hexdigest e bytes) = None"
  with assms show "refresh_cache e path delta s = (Returns False, s)"
    by (simp add: refresh_cache_def calculate_file_hash_def with_lock_def Let_def)
next
  fix row
  assume row: "select_row (file_cache s) (md5_hexdigest e bytes) = Some row"
  with assms show "fst (refresh_cache e path delta s) = Returns True"
    by (simp add: refresh_cache_def calculate_file_hash_def with_lock_def Let_def)
  from select_row_hash [OF row] row assms
  show "select_row (file_cache (snd (refresh_cache e path delta s))) (md5_hexdigest e bytes) =
          Some (row\<lparr>cache_expired_time := Some (int_time e + delta), update_time := int_time e\<rparr>)"
    by (simp add: refresh_cache_def calculate_file_hash_def with_lock_def select_row_map_update
        Let_def)
  fix h
  assume h: "h \<noteq> md5_hexdigest e bytes"
  have "map_option (\<lambda>r. if file_hash r = md5_hexdigest e bytes
                 then r\<lparr>cache_expired_time := Some (int_time e + delta), update_time := int_time e\<rparr>
                 else r) (select_row (file_cache s) h) = select_row (file_cache s) h"
    using h by (cases "select_row (file_cache s) h") (auto dest: select_row_hash)
  with row assms
  show "select_row (file_cache (snd (refresh_cache e path delta s))) h = select_row (file_cache s) h"
    by (simp add: refresh_cache_def calculate_file_hash_def with_lock_def select_row_map_update
        Let_def)
qed

theorem refresh_cache_sets_expiry_witness:
  "fst (refresh_cache (demo_env 200) ''/k/a.txt'' 60 demo_cache) = Returns True \<and>
   select_row (file_cache (snd (refresh_cache (demo_env 200) ''/k/a.txt'' 60 demo_cache))) ''md5:alpha''
     = Some (demo_row\<lparr>cache_expired_time := Some 260, update_time := 200\<rparr>) \<and>
   select_row (file_cache (snd (refresh_cache (demo_env 200) ''/k/a.txt'' 60 demo_cache))) ''md5:beta''
     = Some lapsed_row \<and>
   refresh_cache (demo_env 200) ''/k/c.txt'' 60 demo_cache = (Returns False, demo_cache)"
proof -
  have a: "file_bytes (demo_env 200) ''/k/a.txt'' = Some ''alpha''"
    and c: "file_bytes (demo_env 200) ''/k/c.txt'' = Some ''gamma''"
    by (simp_all add: demo_env_fields)
  have free: "\<not> lock_held demo_cache"
    by (simp add: demo_cache_rows)
  from refresh_cache_sets_expiry [OF a free, of 60] refresh_cache_sets_expiry [OF c free, of 60]
       int_time_demo [of 200]
  show ?thesis
    by (simp add: demo_env_fields demo_cache_rows)
qed

text \<open>
  C8. When the file exists, no record is stored under its hash and the upload raises,
  \<open>get_cache\<close> raises the same error and the cache is exactly as before.
\<close>

theorem ingestion_failure_leaves_cache:
  assumes "file_bytes e path = Some bytes"
    and "select_row (file_cache s) (md5_hexdigest e bytes) = None"
    and "\<not> lock_held s"
    and "upload_files e [path] None = Raises err"
  shows "get_cache e path s = (Raises err, s)"
  using assms by (simp add: get_cache_def with_lock_def)

theorem ingestion_failure_leaves_cache_witness:
  "upload_files (demo_env 100) [''/k/c.txt''] None = Raises ApiError \<and>
   get_cache (demo_env 100) ''/k/c.txt'' demo_cache = (Raises ApiError, demo_cache)"
proof -
  have h1: "file_bytes (demo_env 100) ''/k/c.txt'' = Some ''gamma''"
    by (simp add: demo_env_fields)
  have h2: "select_row (file_cache demo_cache) (md5_hexdigest (demo_env 100) ''gamma'') = None"
    by (simp add: demo_env_fields demo_cache_rows)
  have h3: "\<not> lock_held demo_cache"
    by (simp add: demo_cache_rows)
  have h4: "upload_files (demo_env 100) [''/k/c.txt''] None = Raises ApiError"
    by (simp add: upload_files_def demo_env_fields)
  from ingestion_failure_leaves_cache [OF h1 h2 h3 h4] h4 show ?thesis by simp
qed

text \<open>
  C10. \<open>set_cache\<close> with \<open>expire_seconds = 0\<close> does exactly what it does with
  \<open>expire_seconds\<close> omitted: the stored record has no \<open>cache_expired_time\<close>, and no later
  time is past its expiry.
\<close>

theorem set_cache_zero_ttl_unset:
  "set_cache e path msgs tag (Some 0) annotation s = set_cache e path msgs tag None annotation s \<and>
   (\<forall>bytes. file_bytes e path = Some bytes \<and> \<not> lock_held s \<longrightarrow>
      fst (set_cache e path msgs tag (Some 0) annotation s) = Returns () \<and>
      select_row (file_cache (snd (set_cache e path msgs tag (Some 0) annotation s)))
          (md5_hexdigest e bytes) =
        Some \<lparr>file_hash = md5_hexdigest e bytes, file_path = path,
              messages = serialize_messages msgs, cache_tag = tag,
              cache_expired_time = None, cache_message = annotation,
              create_time = int_time e, update_time = int_time e\<rparr> \<and>
      (\<forall>later. \<not> past_expiry later
          (cache_expired_time
             (the (select_row (file_cache (snd (set_cache e path msgs tag (Some 0) annotation s)))
                     (md5_hexdigest e bytes))))))"
  by (auto simp: set_cache_def calculate_file_hash_def with_lock_def insert_cache_def Let_def
      select_row_insert_same past_expiry_def split: option.splits)

theorem set_cache_zero_ttl_unset_witness:
  "fst (set_cache (demo_env 100) ''/k/c.txt'' [alpha_text] (Some ''u1'') (Some 0) None demo_cache)
     = Returns () \<and>
   select_row
     (file_cache (snd (set_cache (demo_env 100) ''/k/c.txt'' [alpha_text] (Some ''u1'') (Some 0) None
                         demo_cache))) ''md5:gamma'' =
     Some \<lparr>file_hash = ''md5:gamma'', file_path = ''/k/c.txt'', messages = [alpha_text],
           cache_tag = Some ''u1'', cache_expired_time = None, cache_message = None,
           create_time = 100, update_time = 100\<rparr>"
proof -
  have h: "file_bytes (demo_env 100) ''/k/c.txt'' = Some ''gamma'' \<and> \<not> lock_held demo_cache"
    by (simp add: demo_env_fields demo_cache_rows)
  have ser: "serialize_messages [alpha_text] = [alpha_text]"
    by (simp add: serialize_messages_def alpha_text_def)
  have t: "int_time (demo_env 100) = 100"
    using int_time_demo [of 100] by simp
  from set_cache_zero_ttl_unset
         [of "demo_env 100" "''/k/c.txt''" "[alpha_text]" "Some ''u1''" None demo_cache]
       h
  have "fst (set_cache (demo_env 100) ''/k/c.txt'' [alpha_text] (Some ''u1'') (Some 0) None demo_cache)
     = Returns () \<and>
   select_row
     (file_cache (snd (set_cache (demo_env 100) ''/k/c.txt'' [alpha_text] (Some ''u1'') (Some 0) None
                         demo_cache))) (md5_hexdigest (demo_env 100) ''gamma'') =
        Some \<lparr>file_hash = md5_hexdigest (demo_env 100) ''gamma'', file_path = ''/k/c.txt'',
              messages = serialize_messages [alpha_text], cache_tag = Some ''u1'',
              cache_expired_time = None, cache_message = None,
              create_time = int_time (demo_env 100), update_time = int_time (demo_env 100)\<rparr>"
    by blast
  then show ?thesis
    by (simp add: demo_env_fields ser t)
qed

section \<open>Lemmas about deduplication and cleanup\<close>

lemma dedup_scan_snoc:
  "dedup_scan (xs @ [m]) seen acc =
     dedup_scan xs seen acc @
       (if seen (msg_content m) \<noteq> None \<or> msg_content m \<in> set (map msg_content xs) then [] else [m])"
  by (induction xs arbitrary: seen acc) auto

lemma dedup_scan_keep_last:
  "rev (dedup_scan (rev ms) Map.empty []) = keep_last_occurrences ms"
  by (induction ms) (simp_all add: dedup_scan_snoc)



lemma keep_last_set: "set (keep_last_occurrences ms) \<subseteq> set ms"
  by (induction ms) auto




lemma keep_last_id: "distinct (map msg_content ms) \<Longrightarrow> keep_last_occurrences ms = ms"
  by (induction ms) auto

lemma keep_last_filter:
  "filter (\<lambda>m. \<not> is_system m) (keep_last_occurrences (filter (\<lambda>m. \<not> is_system m) ms)) =
   keep_last_occurrences (filter (\<lambda>m. \<not> is_system m) ms)"
  "filter is_system (keep_last_occurrences (filter (\<lambda>m. \<not> is_system m) ms)) = []"
  using keep_last_set [of "filter (\<lambda>m. \<not> is_system m) ms"]
  by (auto simp: filter_id_conv filter_empty_conv)

lemma deduplicate_messages_eq:
  "deduplicate_messages msgs =
     (filter is_system msgs @ keep_last_occurrences (filter (\<lambda>m. \<not> is_system m) msgs),
      int (length (filter (\<lambda>m. \<not> is_system m) msgs)) -
      int (length (keep_last_occurrences (filter (\<lambda>m. \<not> is_system m) msgs))))"
  by (simp add: deduplicate_messages_def Let_def dedup_scan_keep_last)

lemma clean_messages_eq:
  "fst (clean_messages max_messages msgs) =
     filter is_system msgs @
     drop (length (keep_last_occurrences (filter (\<lambda>m. \<not> is_system m) msgs))
           - nat (max_messages - int (length (filter is_system msgs))))
       (keep_last_occurrences (filter (\<lambda>m. \<not> is_system m) msgs))"
  by (auto simp: clean_messages_def deduplicate_messages_eq keep_last_filter Let_def)

lemma drop_keep_last_filter:
  "filter is_system (drop n (keep_last_occurrences (filter (\<lambda>m. \<not> is_system m) ms))) = []"
  "filter (\<lambda>m. \<not> is_system m) (drop n (keep_last_occurrences (filter (\<lambda>m. \<not> is_system m) ms))) =
   drop n (keep_last_occurrences (filter (\<lambda>m. \<not> is_system m) ms))"
  using keep_last_set [of "filter (\<lambda>m. \<not> is_system m) ms"]
  by (auto simp: filter_id_conv filter_empty_conv dest!: in_set_dropD)

lemma cleanup_loop_processed:
  "fst (cleanup_loop ct es mm xs (p, ex, tot, sv)) = p @ map (cleaned_entry ct es mm) xs"
  by (induction xs arbitrary: p ex tot sv)
     (auto simp: cleaned_entry_def Let_def split: prod.splits)

lemma cleanup_loop_expired:
  "fst (snd (cleanup_loop ct es mm xs (p, ex, tot, sv))) =
     ex @ map fst (filter (\<lambda>entry. ct - last_active_time (snd entry) > real_of_int es) xs)"
  by (induction xs arbitrary: p ex tot sv)
     (auto simp: Let_def split: prod.splits)

lemma sessions_fold_delete:
  "sessions (fold delete_session us st) = filter (\<lambda>entry. fst entry \<notin> set us) (sessions st)"
  by (induction us arbitrary: st) (auto simp: delete_session_def intro: filter_cong)

lemma sessions_after_cleanup:
  "sessions (snd (clear_expired_sessions e es mm st)) =
     filter (\<lambda>entry. fst entry \<notin>
               set (map fst (filter (\<lambda>entry. time_now e - last_active_time (snd entry) > real_of_int es)
                      (sessions st))))
       (map (cleaned_entry (time_now e) es mm) (sessions st))"
proof -
  obtain p ex tot sv where
    l: "cleanup_loop (time_now e) es mm (sessions st) ([], [], 0, save_dir st) = (p, ex, tot, sv)"
    by (cases "cleanup_loop (time_now e) es mm (sessions st) ([], [], 0, save_dir st)") auto
  have "p = map (cleaned_entry (time_now e) es mm) (sessions st)"
    using cleanup_loop_processed [of "time_now e" es mm "sessions st" "[]" "[]" 0 "save_dir st"] l
    by simp
  moreover have "ex = map fst (filter (\<lambda>entry. time_now e - last_active_time (snd entry) > real_of_int es)
                      (sessions st))"
    using cleanup_loop_expired [of "time_now e" es mm "sessions st" "[]" "[]" 0 "save_dir st"] l
    by simp
  ultimately show ?thesis
    by (simp add: clear_expired_sessions_def l sessions_fold_delete)
qed

lemma fst_cleaned_entry: "fst (cleaned_entry ct es mm entry) = fst entry"
  by (simp add: cleaned_entry_def)

lemma session_after_cleanup:
  assumes "(uid, session) \<in> set (sessions st)"
    and "distinct (map fst (sessions st))"
    and "\<not> time_now e - last_active_time session > real_of_int es"
  shows "map_of (sessions (snd (clear_expired_sessions e es mm st))) uid =
           Some (session\<lparr>session_messages := fst (clean_messages mm (session_messages session))\<rparr>)"
proof -
  let ?idle = "\<lambda>entry. time_now e - last_active_time (snd entry) > real_of_int es"
  let ?ex = "map fst (filter ?idle (sessions st))"
  let ?res = "filter (\<lambda>entry. fst entry \<notin> set ?ex) (map (cleaned_entry (time_now e) es mm) (sessions st))"
  have notex: "uid \<notin> set ?ex"
  proof
    assume "uid \<in> set ?ex"
    then obtain s2 where "(uid, s2) \<in> set (sessions st)" and idle: "?idle (uid, s2)"
      by auto
    with assms(1,2) have "s2 = session"
      by (meson eq_key_imp_eq_value)
    with idle assms(3) show False by simp
  qed
  have m: "map fst (map (cleaned_entry (time_now e) es mm) (sessions st)) = map fst (sessions st)"
    by (simp add: fst_cleaned_entry comp_def)
  from assms(2) have "distinct (map fst (map (cleaned_entry (time_now e) es mm) (sessions st)))"
    by (simp only: m)
  then have d: "distinct (map fst ?res)"
    by (rule distinct_map_filter)
  have "cleaned_entry (time_now e) es mm (uid, session) \<in> set ?res"
    using assms(1) notex by (auto simp: fst_cleaned_entry)
  then have "(uid, session\<lparr>session_messages := fst (clean_messages mm (session_messages session))\<rparr>) \<in> set ?res"
    using assms(3) by (simp add: cleaned_entry_def)
  with d have "map_of ?res uid = Some (session\<lparr>session_messages := fst (clean_messages mm (session_messages session))\<rparr>)"
    by (simp add: map_of_eq_Some_iff)
  then show ?thesis by (simp add: sessions_after_cleanup)
qed


text \<open>\<open>add_temp_knowledge\<close> has no path that returns.\<close>

lemma add_temp_knowledge_never_returns:
  "fst (add_temp_knowledge e uid path secs st) \<noteq> Returns r"
  by (auto simp: add_temp_knowledge_def Let_def split: prod.splits outcome.splits option.splits)

section \<open>The session store\<close>




text \<open>
  C5. For a session of the dictionary that is not idle, after \<open>clear_expired_sessions\<close>
  the session is still there, differing only in its message list. That list has at most
  \<open>max(max_messages, system count)\<close> entries, holds every system message, and its
  non-system messages are the last \<open>max_messages - system count\<close> of the deduplicated
  non-system messages (none when the system count reaches \<open>max_messages\<close>). With two
  system messages, ten non-system messages of different contents and \<open>max_messages = 5\<close>
  the result is the two system messages and the last three non-system messages.
\<close>

theorem cleanup_truncation_bound:
  assumes "(uid, session) \<in> set (sessions st)"
    and "distinct (map fst (sessions st))"
    and "\<not> time_now e - last_active_time session > real_of_int expire_seconds"
  shows "\<exists>msgs'.
           map_of (sessions (snd (clear_expired_sessions e expire_seconds max_messages st))) uid =
             Some (session\<lparr>session_messages := msgs'\<rparr>) \<and>
           int (length msgs') \<le>
             max max_messages (int (length (filter is_system (session_messages session)))) \<and>
           filter is_system msgs' = filter is_system (session_messages session) \<and>
           filter (\<lambda>m. \<not> is_system m) msgs' =
             drop (length (filter (\<lambda>m. \<not> is_system m)
                             (fst (deduplicate_messages (session_messages session))))
                   - nat (max_messages - int (length (filter is_system (session_messages session)))))
               (filter (\<lambda>m. \<not> is_system m) (fst (deduplicate_messages (session_messages session)))) \<and>
           length (filter (\<lambda>m. \<not> is_system m) msgs') =
             min (length (filter (\<lambda>m. \<not> is_system m)
                            (fst (deduplicate_messages (session_messages session)))))
                 (nat (max_messages - int (length (filter is_system (session_messages session))))) \<and>
           (length (filter is_system (session_messages session)) = 2 \<and>
            length (filter (\<lambda>m. \<not> is_system m) (session_messages session)) = 10 \<and>
            distinct (map msg_content (filter (\<lambda>m. \<not> is_system m) (session_messages session))) \<and>
            max_messages = 5 \<longrightarrow>
              msgs' = filter is_system (session_messages session) @
                      drop 7 (filter (\<lambda>m. \<not> is_system m) (session_messages session)))"
proof -
  let ?msgs = "session_messages session"
  let ?S = "filter is_system ?msgs"
  let ?U = "keep_last_occurrences (filter (\<lambda>m. \<not> is_system m) ?msgs)"
  let ?k = "nat (max_messages - int (length ?S))"
  let ?res = "?S @ drop (length ?U - ?k) ?U"
  have U: "filter (\<lambda>m. \<not> is_system m) (fst (deduplicate_messages ?msgs)) = ?U"
    by (simp add: deduplicate_messages_eq keep_last_filter)
  have a: "map_of (sessions (snd (clear_expired_sessions e expire_seconds max_messages st))) uid =
             Some (session\<lparr>session_messages := ?res\<rparr>)"
    using session_after_cleanup [OF assms] by (simp add: clean_messages_eq)
  have b: "int (length ?res) \<le> max max_messages (int (length ?S))"
    by (simp add: max_def) linarith
  have c: "filter is_system ?res = ?S"
    by (simp add: drop_keep_last_filter)
  have d: "filter (\<lambda>m. \<not> is_system m) ?res = drop (length ?U - ?k) ?U"
    by (simp add: drop_keep_last_filter)
  have f: "length (filter (\<lambda>m. \<not> is_system m) ?res) = min (length ?U) ?k"
    unfolding d by (simp add: min_def)
  have g: "length ?S = 2 \<and> length (filter (\<lambda>m. \<not> is_system m) ?msgs) = 10 \<and>
           distinct (map msg_content (filter (\<lambda>m. \<not> is_system m) ?msgs)) \<and> max_messages = 5 \<longrightarrow>
           ?res = ?S @ drop 7 (filter (\<lambda>m. \<not> is_system m) ?msgs)"
    by (auto simp: keep_last_id)
  from a b c d f g show ?thesis
    unfolding U by blast
qed

theorem cleanup_truncation_scenario:
  "map_of (sessions (snd (clear_expired_sessions (demo_env 100) (3 * 24 * 3600) 5 scenario_man))) ''u1'' =
     Some (scenario_session\<lparr>session_messages :=
             [sys_msg ''persona'', sys_msg ''knowledge'',
              user_msg ''q7'', user_msg ''q8'', user_msg ''q9'']\<rparr>)"
proof -
  have h1: "(''u1'', scenario_session) \<in> set (sessions scenario_man)"
    by (simp add: scenario_man_def)
  have h2: "distinct (map fst (sessions scenario_man))"
    by (simp add: scenario_man_def)
  have h3: "\<not> time_now (demo_env 100) - last_active_time scenario_session > real_of_int (3 * 24 * 3600)"
    by (simp add: demo_env_fields scenario_session_def)
  have s: "filter is_system (session_messages scenario_session) =
             [sys_msg ''persona'', sys_msg ''knowledge'']"
    by (simp add: scenario_session_def is_system_def sys_msg_def user_msg_def)
  have u: "filter (\<lambda>m. \<not> is_system m) (session_messages scenario_session) =
             [user_msg ''q0'', user_msg ''q1'', user_msg ''q2'', user_msg ''q3'', user_msg ''q4'',
              user_msg ''q5'', user_msg ''q6'', user_msg ''q7'', user_msg ''q8'', user_msg ''q9'']"
    by (simp add: scenario_session_def is_system_def sys_msg_def user_msg_def)
  have dist: "distinct (map msg_content (filter (\<lambda>m. \<not> is_system m) (session_messages scenario_session)))"
    unfolding u by (simp add: user_msg_def)
  from cleanup_truncation_bound [OF h1 h2 h3, of 5] dist
  show ?thesis
    unfolding s u by auto
qed

text \<open>
  C9. \<open>get_cache_hit_rate\<close> never raises \<open>ZeroDivisionError\<close>. With counters that are
  counts (not negative) it returns \<open>0\<close> when their sum is \<open>0\<close> and otherwise the hit count
  divided by the sum.
\<close>

theorem hit_rate_division_guarded:
  "get_cache_hit_rate session \<noteq> Raises ZeroDivisionError \<and>
   (0 \<le> cache_hit_count session \<and> 0 \<le> cache_miss_count session \<longrightarrow>
      get_cache_hit_rate session =
        Returns (if cache_hit_count session + cache_miss_count session = 0 then 0
                 else real_of_int (cache_hit_count session) /
                      real_of_int (cache_hit_count session + cache_miss_count session)))"
  by (auto simp: get_cache_hit_rate_def py_truediv_def Let_def)

theorem hit_rate_division_guarded_witness:
  "get_cache_hit_rate demo_session = Returns 0 \<and>
   get_cache_hit_rate (demo_session\<lparr>cache_hit_count := 4, cache_miss_count := 1\<rparr>) = Returns (4 / 5)"
  using hit_rate_division_guarded [of demo_session]
        hit_rate_division_guarded [of "demo_session\<lparr>cache_hit_count := 4, cache_miss_count := 1\<rparr>"]
  by (simp add: demo_session_def)

text \<open>
  C3, at two failing inputs. On a hit (the record of \<open>/k/a.txt\<close> has a live message) the
  hit count becomes \<open>1\<close>, the hit rate \<open>1\<close> exceeds \<open>0.8\<close>, \<open>refresh_cache\<close> runs with
  \<open>2 * 3600\<close> seconds, and then the call raises \<open>AttributeError\<close> instead of returning a file
  identifier. On a miss (the record of \<open>/k/b.txt\<close> has no live message) the miss count
  becomes \<open>1\<close> and the call raises \<open>TypeError\<close>: nothing is registered in the cache.
\<close>

theorem add_temp_knowledge_raises:
  "add_temp_knowledge (demo_env 100) ''u1'' ''/k/a.txt'' (Some 3600) demo_man =
     (Raises AttributeError,
      demo_man\<lparr>sessions := [(''u1'', demo_session\<lparr>cache_hit_count := 1\<rparr>)],
               cache_man := demo_cache\<lparr>file_cache :=
                 [demo_row\<lparr>cache_expired_time := Some 7300, update_time := 100\<rparr>, lapsed_row]\<rparr>\<rparr>) \<and>
   add_temp_knowledge (demo_env 100) ''u1'' ''/k/b.txt'' (Some 3600) demo_man =
     (Raises TypeError,
      demo_man\<lparr>sessions := [(''u1'', demo_session\<lparr>cache_miss_count := 1\<rparr>)]\<rparr>)"
proof -
  have t: "int_time (demo_env 100) = 100"
    using int_time_demo [of 100] by simp
  have s: "get_session (demo_env 100) ''u1'' demo_man = (Returns (demo_session, False), demo_man)"
    by (simp add: get_session_def demo_env_fields demo_man_def)
  have a: "get_cache (demo_env 100) ''/k/a.txt'' demo_cache = (Returns (Messages [alpha_text]), demo_cache)"
    by (simp add: get_cache_def demo_env_fields demo_cache_rows with_lock_def t
        deserialize_messages_def is_expired_def demo_row_def alpha_text_def)
  have b: "get_cache (demo_env 100) ''/k/b.txt'' demo_cache = (Returns (Messages []), demo_cache)"
    by (simp add: get_cache_def demo_env_fields demo_cache_rows with_lock_def t
        deserialize_messages_def is_expired_def lapsed_row_def old_marker_def)
  have r: "refresh_cache (demo_env 100) ''/k/a.txt'' 7200 demo_cache =
             (Returns True, demo_cache\<lparr>file_cache :=
                 [demo_row\<lparr>cache_expired_time := Some 7300, update_time := 100\<rparr>, lapsed_row]\<rparr>)"
    by (simp add: refresh_cache_def calculate_file_hash_def demo_env_fields demo_cache_rows
        with_lock_def t Let_def)
       (simp add: demo_cache_def demo_row_def lapsed_row_def)
  have cm: "cache_man demo_man = demo_cache"
    by (simp add: demo_man_def)
  have hit: "get_cache_hit_rate (demo_session\<lparr>cache_hit_count := 1\<rparr>) = Returns 1"
    by (simp add: get_cache_hit_rate_def py_truediv_def demo_session_def)
  have counts: "cache_hit_count demo_session = 0" "cache_miss_count demo_session = 0"
    by (simp_all add: demo_session_def)
  have ss: "sessions demo_man = [(''u1'', demo_session)]"
    by (simp add: demo_man_def)
  show ?thesis
    by (simp add: add_temp_knowledge_def s cm a b r hit counts ss truthy_def store_session_def
        Let_def)
qed

end
